theory Spec2Isabelle
  imports Complex_Main "HOL-Library.Product_Lexorder"
begin

section \<open>JavaScript values used by the expiry functions\<close>

text \<open>
  The expiry functions of \<^verbatim>\<open>App.js\<close> receive \<^verbatim>\<open>item.expiry_date\<close>, which is a JSON
  string, \<^verbatim>\<open>null\<close> or a missing field, or the form's string. A JavaScript number is an
  exact real or \<^verbatim>\<open>NaN\<close>. A time value is an integer of milliseconds of magnitude at
  most \<open>8.64e15\<close>, which a double holds exactly. The model subtracts and divides
  exactly. The code's double subtraction is exact as long as the difference is below
  \<open>2 ^ 53\<close> in magnitude, as it is at a present-day clock reading, and rounds beyond; the
  double quotient of a difference in that range by \<open>86400000\<close> is a whole number only when
  the exact quotient is, so that its ceiling is the ceiling of the exact quotient. The
  property that gives the exact day count carries the range as a hypothesis; rounding
  moves neither the sign of a difference nor the order of two.
\<close>

datatype jsval = JSUndefined | JSNull | JSString string

datatype jsnum = NaN | Num real

text \<open>\<^verbatim>\<open>!v\<close>: \<^verbatim>\<open>undefined\<close>, \<^verbatim>\<open>null\<close> and the empty string are falsy.\<close>

fun falsy :: "jsval \<Rightarrow> bool" where
  "falsy JSUndefined = True"
| "falsy JSNull = True"
| "falsy (JSString s) = (s = [])"

text \<open>
  \<^verbatim>\<open>new Date(v)\<close>, read as its time value. How a string is parsed is the platform's
  business (\<^verbatim>\<open>Date.parse\<close>), so the parser is a parameter: \<open>None\<close> is an Invalid Date,
  whose time value is \<^verbatim>\<open>NaN\<close>. The parameter stands for the platform as it is set up:
  a date-time string without an offset is read in the host's time zone, so the host's
  time zone is part of it. \<^verbatim>\<open>new Date(null)\<close> is the epoch and
  \<^verbatim>\<open>new Date(undefined)\<close> is invalid.
\<close>

fun newDate :: "(string \<Rightarrow> int option) \<Rightarrow> jsval \<Rightarrow> jsnum" where
  "newDate dateParse JSUndefined = NaN"
| "newDate dateParse JSNull = Num 0"
| "newDate dateParse (JSString s) =
     (case dateParse s of None \<Rightarrow> NaN | Some t \<Rightarrow> Num (of_int t))"

text \<open>
  Arithmetic and comparison of numbers: \<^verbatim>\<open>NaN\<close> propagates and compares false.
  \<open>js_sub\<close> and \<open>js_div\<close> are the exact operations, which the double ones are in the
  range named above.
\<close>

fun js_sub :: "jsnum \<Rightarrow> jsnum \<Rightarrow> jsnum" where
  "js_sub (Num a) (Num b) = Num (a - b)"
| "js_sub _ _ = NaN"

fun js_div :: "jsnum \<Rightarrow> jsnum \<Rightarrow> jsnum" where
  "js_div (Num a) (Num b) = (if b = 0 then NaN else Num (a / b))"
| "js_div _ _ = NaN"

fun Math_ceil :: "jsnum \<Rightarrow> jsnum" where
  "Math_ceil (Num a) = Num (of_int \<lceil>a\<rceil>)"
| "Math_ceil NaN = NaN"

fun js_le :: "jsnum \<Rightarrow> jsnum \<Rightarrow> bool" where
  "js_le (Num a) (Num b) = (a \<le> b)"
| "js_le _ _ = False"

section \<open>The expiry functions\<close>

text \<open>
  \<^verbatim>\<open>getDaysUntilExpiry\<close> takes one argument and reads the wall clock with
  \<^verbatim>\<open>new Date()\<close>; the model takes the clock's reading (milliseconds since the epoch)
  as the parameter \<open>clock\<close>. The result is \<open>None\<close> for \<^verbatim>\<open>null\<close>.
\<close>

definition getDaysUntilExpiry :: "(string \<Rightarrow> int option) \<Rightarrow> int \<Rightarrow> jsval \<Rightarrow> jsnum option" where
  "getDaysUntilExpiry dateParse clock expiryDate =
     (if falsy expiryDate then None
      else
        let expiry = newDate dateParse expiryDate;
            today = Num (of_int clock);
            diffTime = js_sub expiry today;
            diffDays = Math_ceil (js_div diffTime (Num (1000 * 60 * 60 * 24)))
        in Some diffDays)"

datatype expiry_status = none | expired | expiring | fresh

definition getExpiryStatus :: "(string \<Rightarrow> int option) \<Rightarrow> int \<Rightarrow> jsval \<Rightarrow> expiry_status" where
  "getExpiryStatus dateParse clock expiryDate =
     (case getDaysUntilExpiry dateParse clock expiryDate of
        None \<Rightarrow> none
      | Some days \<Rightarrow>
          if js_le days (Num 0) then expired
          else if js_le days (Num 3) then expiring
          else fresh)"

text \<open>The add-item form's initial state (\<^verbatim>\<open>itemForm\<close>, also what \<^verbatim>\<open>resetForm\<close> restores).\<close>

record item_form =
  name :: string
  quantity :: int
  unit :: string
  category :: string
  expiry_date :: string
  barcode :: string

definition itemForm_initial :: item_form where
  "itemForm_initial =
     \<lparr>name = [], quantity = 1, unit = ''pieces'', category = ''other'',
      expiry_date = [], barcode = []\<rparr>"

text \<open>
  A date parser for the concrete instances below: two ISO strings with the time values
  ECMAScript gives them (milliseconds since the epoch, UTC), every other string invalid.
\<close>

definition sampleDateParse :: "string \<Rightarrow> int option" where
  "sampleDateParse s =
     (if s = ''2024-01-12'' then Some 1705017600000
      else if s = ''2024-01-10T02:00:00.000Z'' then Some 1704852000000
      else None)"

section \<open>The refresh scheduler\<close>

text \<open>
  The component's first \<^verbatim>\<open>useEffect\<close> (empty dependency list, so it runs once at mount)
  calls the six fetch functions, registers \<^verbatim>\<open>setInterval(fetchNotifications, 300000)\<close> and
  returns the cleanup \<^verbatim>\<open>() => clearInterval(interval)\<close>. The fetch functions are
  asynchronous: a call issues the request, and the model records the call and its time.
  The runtime is the clock (milliseconds), the table of interval timers and the log of
  calls made.
\<close>

datatype call =
  FetchInventory | FetchRecipes | FetchChallenges | FetchDeals | FetchWasteItems
  | FetchNotifications

record timer =
  handle :: nat
  callback :: call
  period :: nat
  due :: nat

record runtime =
  now :: nat
  timers :: "timer list"
  next_handle :: nat
  calls :: "(nat \<times> call) list"

text \<open>Calling a fetch function at the current time.\<close>

definition invoke :: "call \<Rightarrow> runtime \<Rightarrow> runtime" where
  "invoke c rt = rt\<lparr>calls := calls rt @ [(now rt, c)]\<rparr>"

text \<open>
  \<^verbatim>\<open>setInterval\<close> registers a timer that is first due one delay from now and returns its
  handle; \<^verbatim>\<open>clearInterval\<close> removes the timer with that handle.
\<close>

definition setInterval :: "call \<Rightarrow> nat \<Rightarrow> runtime \<Rightarrow> nat \<times> runtime" where
  "setInterval cb ms rt =
     (next_handle rt,
      rt\<lparr>timers := timers rt @
            [\<lparr>handle = next_handle rt, callback = cb, period = ms, due = now rt + ms\<rparr>],
         next_handle := Suc (next_handle rt)\<rparr>)"

definition clearInterval :: "nat \<Rightarrow> runtime \<Rightarrow> runtime" where
  "clearInterval h rt = rt\<lparr>timers := filter (\<lambda>t. handle t \<noteq> h) (timers rt)\<rparr>"

text \<open>The effect's body, returning the handle its cleanup closes over, and the cleanup.\<close>

definition mount_effect :: "runtime \<Rightarrow> nat \<times> runtime" where
  "mount_effect rt =
     (let rt1 = invoke FetchInventory rt;
          rt2 = invoke FetchRecipes rt1;
          rt3 = invoke FetchChallenges rt2;
          rt4 = invoke FetchDeals rt3;
          rt5 = invoke FetchWasteItems rt4;
          rt6 = invoke FetchNotifications rt5
      in setInterval FetchNotifications 300000 rt6)"

definition cleanup_effect :: "nat \<Rightarrow> runtime \<Rightarrow> runtime" where
  "cleanup_effect interval rt = clearInterval interval rt"

text \<open>
  The event loop, idealised: the timer that is due first fires at its due time (never
  before the current time), its callback is called, and it is due again one period later.
  \<open>run k\<close> lets \<open>k\<close> timer events happen.
\<close>

fun earliest :: "timer list \<Rightarrow> timer option" where
  "earliest [] = None"
| "earliest (t # ts) =
     (case earliest ts of
        None \<Rightarrow> Some t
      | Some u \<Rightarrow> if due t \<le> due u then Some t else Some u)"

definition fire_next :: "runtime \<Rightarrow> runtime" where
  "fire_next rt =
     (case earliest (timers rt) of
        None \<Rightarrow> rt
      | Some t \<Rightarrow>
          invoke (callback t)
            (rt\<lparr>now := max (now rt) (due t),
               timers := map (\<lambda>u. if handle u = handle t then u\<lparr>due := due u + period u\<rparr> else u)
                           (timers rt)\<rparr>))"

fun run :: "nat \<Rightarrow> runtime \<Rightarrow> runtime" where
  "run 0 rt = rt"
| "run (Suc k) rt = run k (fire_next rt)"

text \<open>The runtime when the component mounts at time \<open>t0\<close>: no timer, no call yet.\<close>

definition startup :: "nat \<Rightarrow> runtime" where
  "startup t0 = \<lparr>now = t0, timers = [], next_handle = 0, calls = []\<rparr>"

section \<open>The notification generator and the recipe matcher\<close>

text \<open>
  \<^verbatim>\<open>App.js\<close> only fetches the alerts (\<^verbatim>\<open>/api/notifications/expiring\<close>) and the rescue
  recipes (\<^verbatim>\<open>/api/recipes/expiring\<close>); the functions that compute them are not among the
  sources. They are modelled from sections 3, 4.2 and 4.3 of the specification, on top of
  the expiry functions above, which are the classifier.
\<close>

text \<open>
  Modelled from the spec: the urgency of an Alert of the missing generator. The records
  below hold the fields the two functions read or write (an alert's own \<open>id\<close> is
  generated afresh on every run and is left out); the other fields of an item or a recipe
  fit the records' extension slot and are carried unchanged.
\<close>

datatype urgency = high | medium

text \<open>
  Modelled from the spec: an InventoryItem of the missing server, with its \<open>id\<close>, \<open>name\<close>
  and \<open>expiryDate\<close>; the expiry date is the value the classifier takes.
\<close>

record 'i inventory_item =
  item_id :: 'i
  item_name :: string
  item_expiryDate :: jsval

text \<open>
  Modelled from the spec: an Alert of the missing generator, with its \<open>itemId\<close>, \<open>message\<close>
  and \<open>urgency\<close>.
\<close>

record 'i alert =
  alert_itemId :: 'i
  alert_message :: string
  alert_urgency :: urgency

text \<open>
  Modelled from the spec: a Recipe of the missing matcher, with its \<open>id\<close>, \<open>name\<close>,
  \<open>ingredients\<close> and the derived \<open>expiringIngredients\<close>.
\<close>

record 'r recipe =
  recipe_id :: 'r
  recipe_name :: string
  ingredients :: "string list"
  expiringIngredients :: "string list"

text \<open>
  Modelled from the spec: steps 1 and 2 of the missing generator and step 1 of the missing
  matcher. \<open>classify(item.expiryDate, now)\<close> gives the status and the day count; the items
  that are \<open>expired\<close> or \<open>expiring\<close> are kept, each with its status and day count, in the
  inventory's order.
\<close>

definition classify_item ::
  "(string \<Rightarrow> int option) \<Rightarrow> int \<Rightarrow> ('i, 'z) inventory_item_scheme
     \<Rightarrow> (('i, 'z) inventory_item_scheme \<times> expiry_status \<times> real) option" where
  "classify_item dateParse clock it =
     (let status = getExpiryStatus dateParse clock (item_expiryDate it) in
      case getDaysUntilExpiry dateParse clock (item_expiryDate it) of
        Some (Num days) \<Rightarrow>
          if status = expired \<or> status = expiring then Some (it, status, days) else None
      | _ \<Rightarrow> None)"

text \<open>
  Modelled from the spec: the at-risk items of an inventory for the missing generator and
  matcher, each with its status and day count, in the inventory's order.
\<close>

fun at_risk ::
  "(string \<Rightarrow> int option) \<Rightarrow> int \<Rightarrow> ('i, 'z) inventory_item_scheme list
     \<Rightarrow> (('i, 'z) inventory_item_scheme \<times> expiry_status \<times> real) list" where
  "at_risk dateParse clock [] = []"
| "at_risk dateParse clock (it # items) =
     (case classify_item dateParse clock it of
        None \<Rightarrow> at_risk dateParse clock items
      | Some e \<Rightarrow> e # at_risk dateParse clock items)"

text \<open>
  Modelled from the spec: step 3 of the missing generator, \<open>expired \<rightarrow> high\<close>; \<open>expiring \<rightarrow>
  high\<close> if \<open>days \<le> 1\<close>, else \<open>medium\<close>.
\<close>

definition urgency_of :: "expiry_status \<Rightarrow> real \<Rightarrow> urgency" where
  "urgency_of status days =
     (if status = expired then high else if days \<le> 1 then high else medium)"

text \<open>
  Modelled from the spec: the missing \<open>generate(items, now)\<close> of section 4.2. One alert per
  qualifying item, ordered by day count ascending and then by item id ascending. The
  message is a function of the item's name, the status and the day count, whose wording
  the specification leaves open: it is the parameter \<open>message_of\<close>.
\<close>

definition generate ::
  "(string \<Rightarrow> expiry_status \<Rightarrow> real \<Rightarrow> string) \<Rightarrow> (string \<Rightarrow> int option) \<Rightarrow> int
     \<Rightarrow> ('i::linorder, 'z) inventory_item_scheme list \<Rightarrow> 'i alert list" where
  "generate message_of dateParse clock items =
     map (\<lambda>(it, status, days).
            \<lparr>alert_itemId = item_id it,
             alert_message = message_of (item_name it) status days,
             alert_urgency = urgency_of status days\<rparr>)
         (sort_key (\<lambda>(it, status, days). (days, item_id it)) (at_risk dateParse clock items))"

text \<open>
  Modelled from the spec: the normalisation of ingredient names in the missing matcher,
  "case-insensitive, trimmed": white space is dropped at both ends and the letters
  \<open>A\<close> to \<open>Z\<close> are put in lower case.
\<close>

definition to_lower :: "char \<Rightarrow> char" where
  "to_lower c =
     (let n = (of_char c :: nat) in if 65 \<le> n \<and> n \<le> 90 then char_of (n + 32) else c)"

text \<open>
  Modelled from the spec: the white space that trimming drops in the missing matcher
  (tab, line feed, vertical tab, form feed, carriage return, space).
\<close>

definition is_space :: "char \<Rightarrow> bool" where
  "is_space c = ((of_char c :: nat) \<in> {9, 10, 11, 12, 13, 32})"

text \<open>
  Modelled from the spec: "trimmed", for the missing matcher: no white space at either end.
\<close>

definition trim :: "string \<Rightarrow> string" where
  "trim s = rev (dropWhile is_space (rev (dropWhile is_space s)))"

text \<open>
  Modelled from the spec: the matching key of a name in the missing matcher, trimmed and
  in lower case.
\<close>

definition normalize :: "string \<Rightarrow> string" where
  "normalize s = map to_lower (trim s)"

text \<open>
  Modelled from the spec: step 1 of the missing matcher, the normalised names of the
  at-risk items.
\<close>

definition at_risk_names ::
  "(string \<Rightarrow> int option) \<Rightarrow> int \<Rightarrow> ('i, 'z) inventory_item_scheme list \<Rightarrow> string list" where
  "at_risk_names dateParse clock items =
     map (\<lambda>(it, status, days). normalize (item_name it)) (at_risk dateParse clock items)"

text \<open>
  Modelled from the spec: steps 3 and 5 of the missing matcher, the normalised ingredients
  of a recipe that are at-risk names, in the recipe's own order, each once.
\<close>

fun dedup :: "'a list \<Rightarrow> 'a list" where
  "dedup [] = []"
| "dedup (x # xs) = x # filter (\<lambda>y. y \<noteq> x) (dedup xs)"

text \<open>
  Modelled from the spec: the intersection of a recipe's normalised ingredients with the
  at-risk names, for the missing matcher.
\<close>

definition intersection :: "string list \<Rightarrow> ('r, 'm) recipe_scheme \<Rightarrow> string list" where
  "intersection names r = dedup (filter (\<lambda>g. g \<in> set names) (map normalize (ingredients r)))"

text \<open>
  Modelled from the spec: step 6 of the missing matcher. The rank of a surviving recipe is
  the size of its intersection (larger first), then the least day count among the at-risk
  items whose names are in the intersection (smaller first), then the recipe's id.
\<close>

definition min_days ::
  "(('i, 'z) inventory_item_scheme \<times> expiry_status \<times> real) list \<Rightarrow> string list \<Rightarrow> real option" where
  "min_days risk shared =
     (case map (\<lambda>(it, status, days). days)
             (filter (\<lambda>(it, status, days). normalize (item_name it) \<in> set shared) risk) of
        [] \<Rightarrow> None
      | d # ds \<Rightarrow> Some (fold min ds d))"

text \<open>
  Modelled from the spec: the sort key of step 6 of the missing matcher. A surviving
  recipe has an item behind its intersection, so the default of the day count is never
  the key of a recipe in the output.
\<close>

definition rank_key ::
  "(('i, 'z) inventory_item_scheme \<times> expiry_status \<times> real) list \<Rightarrow> ('r, 'm) recipe_scheme
     \<Rightarrow> int \<times> real \<times> 'r" where
  "rank_key risk r =
     (- int (length (expiringIngredients r)),
      (case min_days risk (expiringIngredients r) of None \<Rightarrow> 0 | Some d \<Rightarrow> d),
      recipe_id r)"

text \<open>
  Modelled from the spec: the missing \<open>match(items, recipes, now)\<close> of section 4.3. With no
  at-risk name the result is empty; otherwise every recipe is annotated with its
  intersection, the recipes with an empty one are dropped and the rest are ranked.
\<close>

definition match_recipes ::
  "(string \<Rightarrow> int option) \<Rightarrow> int \<Rightarrow> ('i, 'z) inventory_item_scheme list
     \<Rightarrow> ('r::linorder, 'm) recipe_scheme list \<Rightarrow> ('r, 'm) recipe_scheme list" where
  "match_recipes dateParse clock items recipes =
     (let risk = at_risk dateParse clock items;
          names = at_risk_names dateParse clock items
      in if names = [] then []
         else sort_key (rank_key risk)
                (filter (\<lambda>r. expiringIngredients r \<noteq> [])
                   (map (\<lambda>r. r\<lparr>expiringIngredients := intersection names r\<rparr>) recipes)))"

text \<open>
  A recipe without its derived annotation: two recipes are the same entry of the catalog
  when they agree on everything but \<open>expiringIngredients\<close>.
\<close>

definition unannotated :: "('r, 'm) recipe_scheme \<Rightarrow> ('r, 'm) recipe_scheme" where
  "unannotated r = r\<lparr>expiringIngredients := []\<rparr>"

text \<open>An inventory and a catalog for the concrete instances.\<close>

definition milk_item :: "nat inventory_item" where
  "milk_item = \<lparr>item_id = 1, item_name = ''Milk'', item_expiryDate = JSString ''2024-01-12''\<rparr>"

definition rice_item :: "nat inventory_item" where
  "rice_item = \<lparr>item_id = 2, item_name = '' Rice'', item_expiryDate = JSNull\<rparr>"

definition stir_fry :: "nat recipe" where
  "stir_fry =
     \<lparr>recipe_id = 7, recipe_name = ''Stir Fry'', ingredients = [''rice'', ''oil''],
      expiringIngredients = []\<rparr>"

definition pudding :: "nat recipe" where
  "pudding =
     \<lparr>recipe_id = 8, recipe_name = ''Pudding'', ingredients = [''milk'', ''sugar''],
      expiringIngredients = []\<rparr>"

section \<open>Properties of the expiry functions\<close>

lemma days_parsed:
  assumes "s \<noteq> []" and "dateParse s = Some t"
  shows "getDaysUntilExpiry dateParse clock (JSString s) =
           Some (Num (of_int \<lceil>real_of_int (t - clock) / 86400000\<rceil>))"
  using assms by (simp add: getDaysUntilExpiry_def)

lemma days_unparsed:
  assumes "s \<noteq> []" and "dateParse s = None"
  shows "getDaysUntilExpiry dateParse clock (JSString s) = Some NaN"
  using assms by (simp add: getDaysUntilExpiry_def)

lemma days_falsy:
  "falsy e \<Longrightarrow> getDaysUntilExpiry dateParse clock e = None"
  by (simp add: getDaysUntilExpiry_def)

lemma days_truthy:
  "\<not> falsy e \<Longrightarrow> getDaysUntilExpiry dateParse clock e \<noteq> None"
  by (simp add: getDaysUntilExpiry_def Let_def)

text \<open>The ceiling of a quotient by the milliseconds of a day, in integer arithmetic.\<close>

lemma ceiling_ms_div: "\<lceil>real_of_int a / 86400000\<rceil> = - ((- a) div 86400000)"
  using ceiling_divide_eq_div [of a 86400000] by simp

lemma days_parsed_div:
  assumes "s \<noteq> []" and "dateParse s = Some t"
  shows "getDaysUntilExpiry dateParse clock (JSString s) =
           Some (Num (of_int (- ((clock - t) div 86400000))))"
  using assms days_parsed [of s dateParse t clock] ceiling_ms_div [of "t - clock"]
  by simp

lemma status_parsed:
  assumes "s \<noteq> []" and "dateParse s = Some t"
  shows "getExpiryStatus dateParse clock (JSString s) =
           (if \<lceil>real_of_int (t - clock) / 86400000\<rceil> \<le> 0 then expired
            else if \<lceil>real_of_int (t - clock) / 86400000\<rceil> \<le> 3 then expiring else fresh)"
  using assms days_parsed [of s dateParse t clock]
  by (simp add: getExpiryStatus_def ceiling_le_iff del: of_int_diff)

lemma status_unparsed:
  assumes "s \<noteq> []" and "dateParse s = None"
  shows "getExpiryStatus dateParse clock (JSString s) = fresh"
  using assms days_unparsed [of s dateParse clock]
  by (simp add: getExpiryStatus_def)

lemma status_none_iff:
  "getExpiryStatus dateParse clock e = none \<longleftrightarrow> falsy e"
proof (cases "falsy e")
  case True
  then show ?thesis by (simp add: getExpiryStatus_def days_falsy)
next
  case False
  then obtain d where "getDaysUntilExpiry dateParse clock e = Some d"
    using days_truthy [of e dateParse clock] by auto
  with False show ?thesis by (simp add: getExpiryStatus_def)
qed

lemma falsy_iff: "falsy e \<longleftrightarrow> e = JSUndefined \<or> e = JSNull \<or> e = JSString []"
  by (cases e) simp_all

text \<open>
  C1. For an expiry date that is present and parses, with \<open>d\<close> the day count that
  \<^verbatim>\<open>getDaysUntilExpiry\<close> returns: the status is \<open>expired\<close> exactly when \<open>d \<le> 0\<close>,
  \<open>expiring\<close> exactly when \<open>0 < d \<le> 3\<close> and \<open>fresh\<close> exactly when \<open>d > 3\<close>; and a date
  that is not after the clock's reading is \<open>expired\<close>.
\<close>

theorem expiry_status_by_days:
  assumes "s \<noteq> []" and "dateParse s = Some t"
  shows "\<exists>d::int. getDaysUntilExpiry dateParse clock (JSString s) = Some (Num (of_int d))
           \<and> (getExpiryStatus dateParse clock (JSString s) = expired \<longleftrightarrow> d \<le> 0)
           \<and> (getExpiryStatus dateParse clock (JSString s) = expiring \<longleftrightarrow> 0 < d \<and> d \<le> 3)
           \<and> (getExpiryStatus dateParse clock (JSString s) = fresh \<longleftrightarrow> 3 < d)
           \<and> (t \<le> clock \<longrightarrow> getExpiryStatus dateParse clock (JSString s) = expired)"
proof -
  let ?d = "\<lceil>real_of_int (t - clock) / 86400000\<rceil>"
  have days: "getDaysUntilExpiry dateParse clock (JSString s) = Some (Num (of_int ?d))"
    using assms by (rule days_parsed)
  have st: "getExpiryStatus dateParse clock (JSString s) =
              (if ?d \<le> 0 then expired else if ?d \<le> 3 then expiring else fresh)"
    using assms by (rule status_parsed)
  have past: "?d \<le> 0" if "t \<le> clock"
  proof -
    from that have "real_of_int (t - clock) / 86400000 \<le> 0"
      by (simp add: divide_nonpos_pos)
    then show ?thesis by (simp only: ceiling_le_iff of_int_0)
  qed
  show ?thesis
    apply (rule exI [of _ ?d])
    using days st past by auto
qed

theorem expiry_status_by_days_witness:
  "getExpiryStatus sampleDateParse 1704844800000 (JSString ''2024-01-12'') = expiring
   \<and> getExpiryStatus sampleDateParse 1705017600000 (JSString ''2024-01-12'') = expired"
  using expiry_status_by_days [of "''2024-01-12''" sampleDateParse 1705017600000 1704844800000]
    expiry_status_by_days [of "''2024-01-12''" sampleDateParse 1705017600000 1705017600000]
    days_parsed_div [of "''2024-01-12''" sampleDateParse 1705017600000 1704844800000]
  by (auto simp add: sampleDateParse_def)

text \<open>
  C2. The status is \<open>none\<close> exactly when the expiry date is absent, which for the code
  is \<^verbatim>\<open>undefined\<close>, \<^verbatim>\<open>null\<close> or the empty string; \<^verbatim>\<open>null\<close> gives \<open>none\<close> at every
  clock reading, and a non-empty string is \<open>expired\<close>, \<open>expiring\<close> or \<open>fresh\<close>.
\<close>

theorem status_none_iff_absent:
  "(getExpiryStatus dateParse clock e = none
      \<longleftrightarrow> e = JSUndefined \<or> e = JSNull \<or> e = JSString [])
   \<and> getExpiryStatus dateParse clock JSNull = none
   \<and> (\<forall>s. s \<noteq> [] \<longrightarrow>
         getExpiryStatus dateParse clock (JSString s) \<in> {expired, expiring, fresh})"
proof -
  have a: "getExpiryStatus dateParse clock e = none
             \<longleftrightarrow> e = JSUndefined \<or> e = JSNull \<or> e = JSString []"
    by (simp only: status_none_iff falsy_iff)
  have b: "getExpiryStatus dateParse clock JSNull = none"
    by (simp add: status_none_iff)
  have c: "getExpiryStatus dateParse clock (JSString s) \<in> {expired, expiring, fresh}"
    if "s \<noteq> []" for s
  proof -
    from that have "getExpiryStatus dateParse clock (JSString s) \<noteq> none"
      by (simp add: status_none_iff)
    then show ?thesis
      by (cases "getExpiryStatus dateParse clock (JSString s)") simp_all
  qed
  from a b c show ?thesis by blast
qed

theorem status_none_iff_absent_witness:
  "getExpiryStatus sampleDateParse 1704844800000 JSNull = none
   \<and> getExpiryStatus sampleDateParse 1704844800000 (JSString ''2024-01-12'') \<noteq> none
   \<and> getExpiryStatus sampleDateParse 1704844800000 (JSString ''banana'') \<noteq> none"
  using status_none_iff_absent [of sampleDateParse 1704844800000 "JSString ''2024-01-12''"]
    status_none_iff_absent [of sampleDateParse 1704844800000 "JSString ''banana''"]
  by simp

text \<open>
  A valid time value and a clock reading within some eleven thousand years of the epoch
  differ by less than \<open>2 ^ 53\<close>, the range in which the code's double subtraction is the
  exact one.
\<close>

lemma date_range_exact:
  assumes "\<bar>t\<bar> \<le> 8640000000000000" and "\<bar>clock\<bar> \<le> 367199254740991"
  shows "\<bar>t - clock\<bar> < (2 ^ 53 :: int)"
  using assms by simp

text \<open>
  C3. For a present expiry date that parses to the time value \<open>t\<close>, with \<open>t - clock\<close> in
  the range that doubles subtract exactly, the day count is the ceiling of
  \<open>(t - clock) / 86400000\<close>: the least whole number \<open>n\<close> of days with \<open>t - clock \<le> n\<close>
  days. An expiry date two hours after the clock's reading gives 1, not 0. A present date
  that does not parse has no time value, and its day count is \<^verbatim>\<open>NaN\<close>.
\<close>

theorem days_is_ceiling:
  assumes "s \<noteq> []"
  shows "(\<forall>t. dateParse s = Some t \<and> \<bar>t - clock\<bar> < 2 ^ 53 \<longrightarrow>
            (\<exists>n::int. getDaysUntilExpiry dateParse clock (JSString s) = Some (Num (of_int n))
               \<and> n = \<lceil>real_of_int (t - clock) / (1000 * 60 * 60 * 24)\<rceil>
               \<and> (n - 1) * 86400000 < t - clock \<and> t - clock \<le> n * 86400000))
         \<and> (dateParse s = Some (clock + 2 * 60 * 60 * 1000) \<longrightarrow>
              getDaysUntilExpiry dateParse clock (JSString s) = Some (Num 1))
         \<and> (dateParse s = None \<longrightarrow>
              getDaysUntilExpiry dateParse clock (JSString s) = Some NaN)"
proof (intro conjI allI impI)
  fix t
  assume a: "dateParse s = Some t \<and> \<bar>t - clock\<bar> < 2 ^ 53"
  let ?n = "\<lceil>real_of_int (t - clock) / 86400000\<rceil>"
  have days: "getDaysUntilExpiry dateParse clock (JSString s) = Some (Num (of_int ?n))"
    using assms a days_parsed [of s dateParse t clock] by blast
  define q where "q = (- (t - clock)) div 86400000"
  define r where "r = (- (t - clock)) mod 86400000"
  have n: "?n = - q"
    unfolding q_def by (rule ceiling_ms_div)
  have split: "- (t - clock) = q * 86400000 + r"
    unfolding q_def r_def by simp
  have r: "0 \<le> r" "r < 86400000"
    unfolding r_def by simp_all
  have lo: "(?n - 1) * 86400000 < t - clock"
    unfolding n using split r by (simp add: algebra_simps)
  have hi: "t - clock \<le> ?n * 86400000"
    unfolding n using split r by (simp add: algebra_simps)
  show "\<exists>n::int. getDaysUntilExpiry dateParse clock (JSString s) = Some (Num (of_int n))
               \<and> n = \<lceil>real_of_int (t - clock) / (1000 * 60 * 60 * 24)\<rceil>
               \<and> (n - 1) * 86400000 < t - clock \<and> t - clock \<le> n * 86400000"
    apply (rule exI [of _ ?n])
    using days lo hi by simp
next
  assume "dateParse s = Some (clock + 2 * 60 * 60 * 1000)"
  with assms show "getDaysUntilExpiry dateParse clock (JSString s) = Some (Num 1)"
    using days_parsed_div [of s dateParse "clock + 2 * 60 * 60 * 1000" clock] by simp
next
  assume "dateParse s = None"
  with assms show "getDaysUntilExpiry dateParse clock (JSString s) = Some NaN"
    by (rule days_unparsed)
qed

theorem days_is_ceiling_witness:
  "getDaysUntilExpiry sampleDateParse 1704844800000 (JSString ''2024-01-12'') = Some (Num 2)
   \<and> getDaysUntilExpiry sampleDateParse 1704844800000 (JSString ''2024-01-10T02:00:00.000Z'')
       = Some (Num 1)
   \<and> getDaysUntilExpiry sampleDateParse 1704844800000 (JSString ''banana'') = Some NaN"
proof -
  have p: "sampleDateParse ''2024-01-12'' = Some 1705017600000
           \<and> \<bar>1705017600000 - 1704844800000\<bar> < (2 ^ 53 :: int)"
    by (simp add: sampleDateParse_def)
  from days_is_ceiling [of "''2024-01-12''" sampleDateParse 1704844800000] p
  obtain n :: int
    where d: "getDaysUntilExpiry sampleDateParse 1704844800000 (JSString ''2024-01-12'')
                = Some (Num (of_int n))"
      and lo: "(n - 1) * 86400000 < 1705017600000 - 1704844800000"
      and hi: "1705017600000 - 1704844800000 \<le> n * 86400000"
    by blast
  from lo hi have "n = 2" by simp
  with d have two: "getDaysUntilExpiry sampleDateParse 1704844800000 (JSString ''2024-01-12'')
                = Some (Num 2)"
    by simp
  from days_is_ceiling [of "''2024-01-10T02:00:00.000Z''" sampleDateParse 1704844800000]
  have one: "getDaysUntilExpiry sampleDateParse 1704844800000
               (JSString ''2024-01-10T02:00:00.000Z'') = Some (Num 1)"
    by (simp add: sampleDateParse_def)
  from days_is_ceiling [of "''banana''" sampleDateParse 1704844800000]
  have nan: "getDaysUntilExpiry sampleDateParse 1704844800000 (JSString ''banana'') = Some NaN"
    by (simp add: sampleDateParse_def)
  from two one nan show ?thesis by simp
qed

text \<open>
  C9. A non-empty expiry string that does not parse gives the day count \<^verbatim>\<open>NaN\<close>, not
  \<^verbatim>\<open>null\<close>, and the status \<open>fresh\<close>, not \<open>none\<close>: \<^verbatim>\<open>NaN\<close> fails both comparisons.
\<close>

theorem unparseable_is_fresh:
  assumes "s \<noteq> []" and "dateParse s = None"
  shows "getDaysUntilExpiry dateParse clock (JSString s) = Some NaN
         \<and> getDaysUntilExpiry dateParse clock (JSString s) \<noteq> None
         \<and> \<not> js_le NaN (Num 0) \<and> \<not> js_le NaN (Num 3)
         \<and> getExpiryStatus dateParse clock (JSString s) = fresh
         \<and> getExpiryStatus dateParse clock (JSString s) \<noteq> none"
  using assms days_unparsed [of s dateParse clock] status_unparsed [of s dateParse clock]
  by simp

theorem unparseable_is_fresh_witness:
  "getDaysUntilExpiry sampleDateParse 1704844800000 (JSString ''banana'') = Some NaN
   \<and> getExpiryStatus sampleDateParse 1704844800000 (JSString ''banana'') = fresh"
  using unparseable_is_fresh [of "''banana''" sampleDateParse 1704844800000]
  by (simp add: sampleDateParse_def)

text \<open>
  C10. The empty string, which is the add-item form's initial \<^verbatim>\<open>expiry_date\<close>, stands for
  an absent expiry date: the day count is \<^verbatim>\<open>null\<close> and the status \<open>none\<close>, as for
  \<^verbatim>\<open>null\<close> and \<^verbatim>\<open>undefined\<close>.
\<close>

theorem empty_string_is_absent:
  "expiry_date itemForm_initial = []
   \<and> getDaysUntilExpiry dateParse clock (JSString (expiry_date itemForm_initial)) = None
   \<and> getExpiryStatus dateParse clock (JSString (expiry_date itemForm_initial)) = none
   \<and> getDaysUntilExpiry dateParse clock (JSString []) = getDaysUntilExpiry dateParse clock JSNull
   \<and> getDaysUntilExpiry dateParse clock (JSString []) = getDaysUntilExpiry dateParse clock JSUndefined
   \<and> getExpiryStatus dateParse clock (JSString []) = getExpiryStatus dateParse clock JSNull
   \<and> getExpiryStatus dateParse clock (JSString []) = getExpiryStatus dateParse clock JSUndefined"
  by (simp add: itemForm_initial_def days_falsy status_none_iff [THEN iffD2])

theorem empty_string_is_absent_witness:
  "getDaysUntilExpiry sampleDateParse 1704844800000 (JSString (expiry_date itemForm_initial)) = None
   \<and> getExpiryStatus sampleDateParse 1704844800000 (JSString []) = none"
  using empty_string_is_absent [of sampleDateParse 1704844800000]
  by (simp add: itemForm_initial_def)

lemma days_antitone:
  assumes "clock1 \<le> clock2"
  shows "\<lceil>real_of_int (t - clock2) / 86400000\<rceil> \<le> \<lceil>real_of_int (t - clock1) / 86400000\<rceil>"
proof (rule ceiling_mono)
  from assms show "real_of_int (t - clock2) / 86400000 \<le> real_of_int (t - clock1) / 86400000"
    by (simp add: divide_right_mono)
qed

lemma days_same_parse:
  assumes "\<forall>s. e = JSString s \<longrightarrow> dateParse s = dateParse' s"
  shows "getDaysUntilExpiry dateParse clock e = getDaysUntilExpiry dateParse' clock e"
  using assms by (cases e) (simp_all add: getDaysUntilExpiry_def)

lemma days_at_expiry:
  assumes "s \<noteq> []" and "dateParse s = Some t"
  shows "getDaysUntilExpiry dateParse t (JSString s) = Some (Num 0)"
    and "getDaysUntilExpiry dateParse (t - 86400000) (JSString s) = Some (Num 1)"
  using assms days_parsed_div [of s dateParse t t]
    days_parsed_div [of s dateParse t "t - 86400000"]
  by simp_all

lemma status_at_expiry:
  assumes "s \<noteq> []" and "dateParse s = Some t"
  shows "getExpiryStatus dateParse t (JSString s) = expired"
    and "getExpiryStatus dateParse (t - 86400000) (JSString s) = expiring"
  using assms days_at_expiry [of s dateParse t] by (simp_all add: getExpiryStatus_def)

lemma clock_free_cases:
  "falsy e \<or> (\<exists>s. e = JSString s \<and> dateParse s = None)
   \<or> (\<exists>s t. e = JSString s \<and> s \<noteq> [] \<and> dateParse s = Some t)"
proof (cases e)
  case (JSString s)
  then show ?thesis by (cases "s = []"; cases "dateParse s") auto
qed simp_all

lemma days_clock_free:
  assumes "falsy e \<or> (\<exists>s. e = JSString s \<and> dateParse s = None)"
  shows "getDaysUntilExpiry dateParse clock1 e = getDaysUntilExpiry dateParse clock2 e"
  using assms
proof
  assume "falsy e"
  then show ?thesis by (simp add: days_falsy)
next
  assume "\<exists>s. e = JSString s \<and> dateParse s = None"
  then obtain s where s: "e = JSString s" "dateParse s = None" by blast
  show ?thesis
  proof (cases "s = []")
    case True
    with s show ?thesis by (simp add: days_falsy)
  next
    case False
    with s show ?thesis by (simp add: days_unparsed)
  qed
qed

lemma status_clock_free_iff:
  "(\<forall>c1 c2. getExpiryStatus dateParse c1 e = getExpiryStatus dateParse c2 e)
     \<longleftrightarrow> falsy e \<or> (\<exists>s. e = JSString s \<and> dateParse s = None)"
proof
  assume same: "\<forall>c1 c2. getExpiryStatus dateParse c1 e = getExpiryStatus dateParse c2 e"
  show "falsy e \<or> (\<exists>s. e = JSString s \<and> dateParse s = None)"
  proof (rule ccontr)
    assume "\<not> (falsy e \<or> (\<exists>s. e = JSString s \<and> dateParse s = None))"
    with clock_free_cases [of e dateParse]
    obtain s t where e: "e = JSString s" and st: "s \<noteq> []" "dateParse s = Some t"
      by blast
    from st status_at_expiry [of s dateParse t]
    have "getExpiryStatus dateParse t e = expired"
      and "getExpiryStatus dateParse (t - 86400000) e = expiring"
      unfolding e by blast+
    with same have "expired = expiring" by metis
    then show False by simp
  qed
next
  assume "falsy e \<or> (\<exists>s. e = JSString s \<and> dateParse s = None)"
  then have "getDaysUntilExpiry dateParse c1 e = getDaysUntilExpiry dateParse c2 e" for c1 c2
    by (rule days_clock_free)
  then have "getExpiryStatus dateParse c1 e = getExpiryStatus dateParse c2 e" for c1 c2
    unfolding getExpiryStatus_def by (rule arg_cong)
  then show "\<forall>c1 c2. getExpiryStatus dateParse c1 e = getExpiryStatus dateParse c2 e"
    by blast
qed

lemma days_clock_free_iff:
  "(\<forall>c1 c2. getDaysUntilExpiry dateParse c1 e = getDaysUntilExpiry dateParse c2 e)
     \<longleftrightarrow> falsy e \<or> (\<exists>s. e = JSString s \<and> dateParse s = None)"
proof
  assume same: "\<forall>c1 c2. getDaysUntilExpiry dateParse c1 e = getDaysUntilExpiry dateParse c2 e"
  show "falsy e \<or> (\<exists>s. e = JSString s \<and> dateParse s = None)"
  proof (rule ccontr)
    assume "\<not> (falsy e \<or> (\<exists>s. e = JSString s \<and> dateParse s = None))"
    with clock_free_cases [of e dateParse]
    obtain s t where e: "e = JSString s" and st: "s \<noteq> []" "dateParse s = Some t"
      by blast
    from st days_at_expiry [of s dateParse t]
    have "getDaysUntilExpiry dateParse t e = Some (Num 0)"
      and "getDaysUntilExpiry dateParse (t - 86400000) e = Some (Num 1)"
      unfolding e by blast+
    with same have "Some (Num 0) = Some (Num 1)" by metis
    then show False by simp
  qed
next
  assume "falsy e \<or> (\<exists>s. e = JSString s \<and> dateParse s = None)"
  then show "\<forall>c1 c2. getDaysUntilExpiry dateParse c1 e = getDaysUntilExpiry dateParse c2 e"
    using days_clock_free [of e dateParse] by blast
qed


text \<open>
  C7. The expiry functions assign nothing outside their locals, and the model returns a
  value only. Their result is a function of the argument, of the platform's parse of that
  string and of the clock's reading: two calls that agree on the three agree on the
  result. The result does depend on the clock: for every date that parses, the day count
  is 0 and the status \<open>expired\<close> when the clock reads the expiry time, and 1 and
  \<open>expiring\<close> a day earlier; the result is the same at all readings exactly when the date
  is absent or does not parse; and the day count at a later reading is never greater than
  at an earlier one.
\<close>

theorem expiry_result_by_argument_and_clock:
  "((\<forall>s. e = JSString s \<longrightarrow> dateParse s = dateParse' s) \<and> clock1 = clock2 \<longrightarrow>
      getDaysUntilExpiry dateParse clock1 e = getDaysUntilExpiry dateParse' clock2 e
      \<and> getExpiryStatus dateParse clock1 e = getExpiryStatus dateParse' clock2 e)
   \<and> (\<forall>s t. e = JSString s \<and> s \<noteq> [] \<and> dateParse s = Some t \<longrightarrow>
        getDaysUntilExpiry dateParse t e = Some (Num 0)
        \<and> getDaysUntilExpiry dateParse (t - 86400000) e = Some (Num 1)
        \<and> getExpiryStatus dateParse t e = expired
        \<and> getExpiryStatus dateParse (t - 86400000) e = expiring)
   \<and> ((\<forall>c1 c2. getDaysUntilExpiry dateParse c1 e = getDaysUntilExpiry dateParse c2 e)
        \<longleftrightarrow> falsy e \<or> (\<exists>s. e = JSString s \<and> dateParse s = None))
   \<and> ((\<forall>c1 c2. getExpiryStatus dateParse c1 e = getExpiryStatus dateParse c2 e)
        \<longleftrightarrow> falsy e \<or> (\<exists>s. e = JSString s \<and> dateParse s = None))
   \<and> (\<forall>s t. e = JSString s \<and> s \<noteq> [] \<and> dateParse s = Some t \<and> clock1 \<le> clock2 \<longrightarrow>
        (\<exists>d1 d2::int. getDaysUntilExpiry dateParse clock1 e = Some (Num (of_int d1))
           \<and> getDaysUntilExpiry dateParse clock2 e = Some (Num (of_int d2)) \<and> d2 \<le> d1))"
proof -
  have determined:
    "getDaysUntilExpiry dateParse clock1 e = getDaysUntilExpiry dateParse' clock2 e
     \<and> getExpiryStatus dateParse clock1 e = getExpiryStatus dateParse' clock2 e"
    if "(\<forall>s. e = JSString s \<longrightarrow> dateParse s = dateParse' s) \<and> clock1 = clock2"
    using that days_same_parse [of e dateParse dateParse' clock1]
    by (simp add: getExpiryStatus_def)
  have varies:
    "getDaysUntilExpiry dateParse t e = Some (Num 0)
     \<and> getDaysUntilExpiry dateParse (t - 86400000) e = Some (Num 1)
     \<and> getExpiryStatus dateParse t e = expired
     \<and> getExpiryStatus dateParse (t - 86400000) e = expiring"
    if "e = JSString s \<and> s \<noteq> [] \<and> dateParse s = Some t" for s t
    using that days_at_expiry [of s dateParse t] status_at_expiry [of s dateParse t]
    by blast
  have antitone:
    "\<exists>d1 d2::int. getDaysUntilExpiry dateParse clock1 e = Some (Num (of_int d1))
       \<and> getDaysUntilExpiry dateParse clock2 e = Some (Num (of_int d2)) \<and> d2 \<le> d1"
    if a: "e = JSString s \<and> s \<noteq> [] \<and> dateParse s = Some t \<and> clock1 \<le> clock2" for s t
  proof -
    from a have "getDaysUntilExpiry dateParse clock1 e =
               Some (Num (of_int \<lceil>real_of_int (t - clock1) / 86400000\<rceil>))"
      and "getDaysUntilExpiry dateParse clock2 e =
               Some (Num (of_int \<lceil>real_of_int (t - clock2) / 86400000\<rceil>))"
      using days_parsed [of s dateParse t clock1] days_parsed [of s dateParse t clock2]
      by blast+
    moreover from a have "\<lceil>real_of_int (t - clock2) / 86400000\<rceil>
                          \<le> \<lceil>real_of_int (t - clock1) / 86400000\<rceil>"
      by (simp only: days_antitone)
    ultimately show ?thesis by blast
  qed
  from determined varies antitone
    days_clock_free_iff [of dateParse e] status_clock_free_iff [of dateParse e]
  show ?thesis by blast
qed

theorem expiry_result_by_argument_and_clock_witness:
  "getExpiryStatus sampleDateParse 1705017600000 (JSString ''2024-01-12'') = expired
   \<and> getExpiryStatus sampleDateParse (1705017600000 - 86400000) (JSString ''2024-01-12'')
       = expiring
   \<and> (\<forall>c1 c2. getExpiryStatus sampleDateParse c1 (JSString ''banana'')
                = getExpiryStatus sampleDateParse c2 (JSString ''banana''))
   \<and> (\<exists>d1 d2::int.
        getDaysUntilExpiry sampleDateParse 1704844800000 (JSString ''2024-01-12'')
          = Some (Num (of_int d1))
        \<and> getDaysUntilExpiry sampleDateParse 1705017600000 (JSString ''2024-01-12'')
          = Some (Num (of_int d2))
        \<and> d2 \<le> d1)"
proof -
  have p: "sampleDateParse ''2024-01-12'' = Some 1705017600000"
    and u: "sampleDateParse ''banana'' = None"
    and o: "(1704844800000 :: int) \<le> 1705017600000"
    by (simp_all add: sampleDateParse_def)
  have ne: "''2024-01-12'' \<noteq> []"
    by simp
  from expiry_result_by_argument_and_clock
         [of "JSString ''2024-01-12''" sampleDateParse sampleDateParse
            1704844800000 1705017600000] p o ne
  have a: "getExpiryStatus sampleDateParse 1705017600000 (JSString ''2024-01-12'') = expired"
    and b: "getExpiryStatus sampleDateParse (1705017600000 - 86400000)
              (JSString ''2024-01-12'') = expiring"
    and d: "\<exists>d1 d2::int.
        getDaysUntilExpiry sampleDateParse 1704844800000 (JSString ''2024-01-12'')
          = Some (Num (of_int d1))
        \<and> getDaysUntilExpiry sampleDateParse 1705017600000 (JSString ''2024-01-12'')
          = Some (Num (of_int d2))
        \<and> d2 \<le> d1"
    by blast+
  from expiry_result_by_argument_and_clock
         [of "JSString ''banana''" sampleDateParse sampleDateParse 0 0] u
  have c: "\<forall>c1 c2. getExpiryStatus sampleDateParse c1 (JSString ''banana'')
                = getExpiryStatus sampleDateParse c2 (JSString ''banana'')"
    by blast
  from a b c d show ?thesis by blast
qed

text \<open>
  C7, as first stated, fails: with the same argument at two readings of the wall clock, two
  days apart, the status and the day count both differ, so the result does depend on the
  clock that \<^verbatim>\<open>new Date()\<close> reads.
\<close>

theorem status_varies_with_clock_counterexample:
  "getExpiryStatus sampleDateParse 1704844800000 (JSString ''2024-01-12'')
     \<noteq> getExpiryStatus sampleDateParse 1705017600000 (JSString ''2024-01-12'')
   \<and> getDaysUntilExpiry sampleDateParse 1704844800000 (JSString ''2024-01-12'')
     \<noteq> getDaysUntilExpiry sampleDateParse 1705017600000 (JSString ''2024-01-12'')"
  using status_parsed [of "''2024-01-12''" sampleDateParse 1705017600000 1704844800000]
    status_parsed [of "''2024-01-12''" sampleDateParse 1705017600000 1705017600000]
    days_parsed_div [of "''2024-01-12''" sampleDateParse 1705017600000 1704844800000]
    days_parsed_div [of "''2024-01-12''" sampleDateParse 1705017600000 1705017600000]
    ceiling_ms_div [of "1705017600000 - 1704844800000"]
  by (simp add: sampleDateParse_def)

section \<open>Properties of the refresh scheduler\<close>

lemma mount_effect_state:
  "mount_effect rt =
     (next_handle rt,
      rt\<lparr>calls := calls rt @
            [(now rt, FetchInventory), (now rt, FetchRecipes), (now rt, FetchChallenges),
             (now rt, FetchDeals), (now rt, FetchWasteItems), (now rt, FetchNotifications)],
         timers := timers rt @
            [\<lparr>handle = next_handle rt, callback = FetchNotifications, period = 300000,
              due = now rt + 300000\<rparr>],
         next_handle := Suc (next_handle rt)\<rparr>)"
  by (simp add: mount_effect_def invoke_def setInterval_def)

lemma fire_single:
  assumes "timers rt = [\<lparr>handle = h, callback = c, period = p, due = d\<rparr>]" and "now rt \<le> d"
  shows "fire_next rt =
           rt\<lparr>now := d, timers := [\<lparr>handle = h, callback = c, period = p, due = d + p\<rparr>],
              calls := calls rt @ [(d, c)]\<rparr>"
  using assms by (simp add: fire_next_def invoke_def max_def)

lemma run_single:
  assumes "timers rt = [\<lparr>handle = h, callback = c, period = p, due = d\<rparr>]" and "now rt \<le> d"
  shows "timers (run k rt) = [\<lparr>handle = h, callback = c, period = p, due = d + k * p\<rparr>]
         \<and> calls (run k rt) = calls rt @ map (\<lambda>i. (d + i * p, c)) [0..<k]
         \<and> now (run k rt) \<le> d + k * p"
  using assms
proof (induction k arbitrary: rt d)
  case 0
  then show ?case by simp
next
  case (Suc k)
  let ?rt = "fire_next rt"
  have f: "?rt = rt\<lparr>now := d, timers := [\<lparr>handle = h, callback = c, period = p, due = d + p\<rparr>],
              calls := calls rt @ [(d, c)]\<rparr>"
    using Suc.prems by (rule fire_single)
  then have t: "timers ?rt = [\<lparr>handle = h, callback = c, period = p, due = d + p\<rparr>]"
    and n: "now ?rt \<le> d + p" and cs: "calls ?rt = calls rt @ [(d, c)]"
    by simp_all
  from Suc.IH [OF t n]
  have ih: "timers (run k ?rt) = [\<lparr>handle = h, callback = c, period = p, due = d + p + k * p\<rparr>]"
    "calls (run k ?rt) = calls ?rt @ map (\<lambda>i. (d + p + i * p, c)) [0..<k]"
    "now (run k ?rt) \<le> d + p + k * p"
    by simp_all
  have m: "map (\<lambda>i. (d + i * p, c)) [0..<Suc k] =
             (d, c) # map (\<lambda>i. (d + p + i * p, c)) [0..<k]"
    by (simp add: upt_conv_Cons map_Suc_upt [symmetric] del: upt_Suc add: add.assoc)
  show ?case
    using ih cs m by (simp add: add.assoc del: upt_Suc)
qed

lemma run_no_timers:
  "timers rt = [] \<Longrightarrow> run k rt = rt"
  by (induction k) (simp_all add: fire_next_def)


text \<open>
  C8. Mounting with no timer registered calls \<^verbatim>\<open>fetchNotifications\<close> at once (the last of
  the six fetches, all at the mount time); the \<open>k\<close> timer events that follow are calls of
  \<^verbatim>\<open>fetchNotifications\<close> at one, two, ... \<open>k\<close> periods of five minutes after the mount
  time; and after the cleanup, whenever it runs, no timer is left and no further call is
  ever made.
\<close>

theorem refresh_scheduler:
  assumes "timers rt = []"
  shows "calls (snd (mount_effect rt)) =
           calls rt @
             [(now rt, FetchInventory), (now rt, FetchRecipes), (now rt, FetchChallenges),
              (now rt, FetchDeals), (now rt, FetchWasteItems), (now rt, FetchNotifications)]
         \<and> (\<forall>k. calls (run k (snd (mount_effect rt))) =
                calls (snd (mount_effect rt)) @
                  map (\<lambda>i. (now rt + (i + 1) * (5 * 60 * 1000), FetchNotifications)) [0..<k])
         \<and> (\<forall>k. timers (cleanup_effect (fst (mount_effect rt)) (run k (snd (mount_effect rt)))) = []
               \<and> (\<forall>n. calls (run n (cleanup_effect (fst (mount_effect rt))
                                      (run k (snd (mount_effect rt))))) =
                       calls (run k (snd (mount_effect rt)))))"
proof -
  let ?h = "fst (mount_effect rt)" and ?rt = "snd (mount_effect rt)"
  have h: "?h = next_handle rt"
    by (simp add: mount_effect_state)
  have t: "timers ?rt = [\<lparr>handle = next_handle rt, callback = FetchNotifications,
                          period = 300000, due = now rt + 300000\<rparr>]"
    using assms by (simp add: mount_effect_state)
  have n: "now ?rt \<le> now rt + 300000"
    by (simp add: mount_effect_state)
  have first: "calls ?rt = calls rt @
             [(now rt, FetchInventory), (now rt, FetchRecipes), (now rt, FetchChallenges),
              (now rt, FetchDeals), (now rt, FetchWasteItems), (now rt, FetchNotifications)]"
    by (simp add: mount_effect_state)
  have periodic: "calls (run k ?rt) =
      calls ?rt @ map (\<lambda>i. (now rt + (i + 1) * (5 * 60 * 1000), FetchNotifications)) [0..<k]"
    for k
    using run_single [OF t n, of k] by (simp add: algebra_simps)
  have cleared: "timers (cleanup_effect ?h (run k ?rt)) = []" for k
    using run_single [OF t n, of k] by (simp add: cleanup_effect_def clearInterval_def h)
  have quiet: "calls (run m (cleanup_effect ?h (run k ?rt))) = calls (run k ?rt)" for m k
    using run_no_timers [OF cleared, of m k]
    by (simp add: cleanup_effect_def clearInterval_def)
  from first periodic cleared quiet show ?thesis by blast
qed

theorem refresh_scheduler_witness:
  "calls (run 2 (snd (mount_effect (startup 1000)))) =
     [(1000, FetchInventory), (1000, FetchRecipes), (1000, FetchChallenges),
      (1000, FetchDeals), (1000, FetchWasteItems), (1000, FetchNotifications),
      (301000, FetchNotifications), (601000, FetchNotifications)]
   \<and> timers (cleanup_effect (fst (mount_effect (startup 1000)))
               (run 2 (snd (mount_effect (startup 1000))))) = []"
  using refresh_scheduler [of "startup 1000"]
  by (simp add: startup_def upt_conv_Cons)

section \<open>Properties of the notification generator and the recipe matcher\<close>

lemma classify_item_Some:
  "classify_item dateParse clock it = Some e \<longleftrightarrow>
     (\<exists>days. e = (it, getExpiryStatus dateParse clock (item_expiryDate it), days)
        \<and> getDaysUntilExpiry dateParse clock (item_expiryDate it) = Some (Num days)
        \<and> (getExpiryStatus dateParse clock (item_expiryDate it) = expired
           \<or> getExpiryStatus dateParse clock (item_expiryDate it) = expiring))"
  by (auto simp add: classify_item_def Let_def split: option.splits jsnum.splits)

lemma status_at_risk_has_days:
  assumes "getExpiryStatus dateParse clock e = expired \<or> getExpiryStatus dateParse clock e = expiring"
  shows "\<exists>days. getDaysUntilExpiry dateParse clock e = Some (Num days)"
proof (cases "getDaysUntilExpiry dateParse clock e")
  case None
  with assms show ?thesis by (simp add: getExpiryStatus_def)
next
  case (Some n)
  with assms show ?thesis by (cases n) (simp_all add: getExpiryStatus_def)
qed

lemma at_risk_append:
  "at_risk dateParse clock (xs @ ys) = at_risk dateParse clock xs @ at_risk dateParse clock ys"
  by (induction xs) (simp_all split: option.splits)

lemma set_at_risk:
  "set (at_risk dateParse clock items) =
     {e. \<exists>it\<in>set items. classify_item dateParse clock it = Some e}"
  by (induction items) (auto split: option.splits)

lemma at_risk_skip:
  "classify_item dateParse clock x = None \<Longrightarrow>
     at_risk dateParse clock (xs @ x # ys) = at_risk dateParse clock (xs @ ys)"
  by (simp add: at_risk_append)

lemma set_dedup: "set (dedup xs) = set xs"
  by (induction xs) auto

lemma intersection_empty_iff:
  "intersection names r = [] \<longleftrightarrow> (\<forall>g\<in>set (ingredients r). normalize g \<notin> set names)"
proof -
  have "intersection names r = [] \<longleftrightarrow> set (intersection names r) = {}"
    by simp
  also have "\<dots> \<longleftrightarrow> (\<forall>g\<in>set (ingredients r). normalize g \<notin> set names)"
    unfolding intersection_def set_dedup by auto
  finally show ?thesis .
qed

lemma match_recipes_unannotated:
  "unannotated ` set (match_recipes dateParse clock items recipes) =
     unannotated ` {r \<in> set recipes.
                   \<exists>g\<in>set (ingredients r). normalize g \<in> set (at_risk_names dateParse clock items)}"
proof (cases "at_risk_names dateParse clock items = []")
  case True
  then show ?thesis by (simp add: match_recipes_def)
next
  case False
  let ?names = "at_risk_names dateParse clock items"
  have "set (match_recipes dateParse clock items recipes) =
          {r \<in> (\<lambda>r. r\<lparr>expiringIngredients := intersection ?names r\<rparr>) ` set recipes.
             expiringIngredients r \<noteq> []}"
    using False by (simp add: match_recipes_def Let_def)
  also have "\<dots> = (\<lambda>r. r\<lparr>expiringIngredients := intersection ?names r\<rparr>) `
                     {r \<in> set recipes. intersection ?names r \<noteq> []}"
    by auto
  finally have "unannotated ` set (match_recipes dateParse clock items recipes) =
                  unannotated ` {r \<in> set recipes. intersection ?names r \<noteq> []}"
    by (simp add: image_image unannotated_def)
  then show ?thesis by (simp add: intersection_empty_iff)
qed

lemma set_at_risk_names:
  "set (at_risk_names dateParse clock items) =
     {normalize (item_name it) | it. it \<in> set items \<and> classify_item dateParse clock it \<noteq> None}"
proof -
  have "set (at_risk_names dateParse clock items) =
          (\<lambda>(it, status, days). normalize (item_name it)) `
             {e. \<exists>it\<in>set items. classify_item dateParse clock it = Some e}"
    by (simp add: at_risk_names_def set_at_risk)
  also have "\<dots> = {normalize (item_name it) | it.
                      it \<in> set items \<and> classify_item dateParse clock it \<noteq> None}"
    by (force simp add: classify_item_Some)
  finally show ?thesis .
qed

lemma at_risk_names_grow:
  "set (at_risk_names dateParse clock (xs @ ys))
     \<subseteq> set (at_risk_names dateParse clock (xs @ x # ys))"
  unfolding set_at_risk_names by auto

text \<open>
  C5. The matcher returns the empty list for an empty catalog, for an empty inventory and
  whenever there is no at-risk name. It is a total function into lists: it has no error
  result.
\<close>

theorem match_empty_inputs:
  "match_recipes dateParse clock items [] = []
   \<and> match_recipes dateParse clock [] recipes = []
   \<and> (at_risk_names dateParse clock items = [] \<longrightarrow>
        match_recipes dateParse clock items recipes = [])"
  by (simp add: match_recipes_def at_risk_names_def)

theorem match_empty_inputs_witness:
  "at_risk_names sampleDateParse 1700000000000 [milk_item, rice_item] = []
   \<and> match_recipes sampleDateParse 1700000000000 [milk_item, rice_item] [stir_fry, pudding] = []
   \<and> match_recipes sampleDateParse 1704844800000 [milk_item, rice_item] ([] :: nat recipe list) = []
   \<and> match_recipes sampleDateParse 1704844800000 ([] :: nat inventory_item list)
        [stir_fry, pudding] = []"
proof -
  have n: "at_risk_names sampleDateParse 1700000000000 [milk_item, rice_item] = []"
    by code_simp
  from match_empty_inputs
         [of sampleDateParse 1700000000000 "[milk_item, rice_item]" "[stir_fry, pudding]"] n
    match_empty_inputs [of sampleDateParse 1704844800000 "[milk_item, rice_item]"]
    match_empty_inputs [of sampleDateParse 1704844800000 _ "[stir_fry, pudding]"]
  show ?thesis by blast
qed

text \<open>
  C6. Let \<open>r\<close> be a recipe of the catalog that is not in the matcher's output, and add to
  the inventory, at any position, an item whose normalised name is a normalised ingredient
  of \<open>r\<close>. Then \<open>r\<close> is in the new output or the output is unchanged, and every recipe of
  the old output is in the new one. Recipes are compared without their annotation, which
  may grow.
\<close>

theorem match_monotone:
  assumes "r \<in> set recipes"
    and "unannotated r \<notin> unannotated ` set (match_recipes dateParse clock (xs @ ys) recipes)"
    and "normalize (item_name x) \<in> normalize ` set (ingredients r)"
  shows "(unannotated r \<in> unannotated ` set (match_recipes dateParse clock (xs @ x # ys) recipes)
          \<or> match_recipes dateParse clock (xs @ x # ys) recipes
               = match_recipes dateParse clock (xs @ ys) recipes)
         \<and> unannotated ` set (match_recipes dateParse clock (xs @ ys) recipes)
             \<subseteq> unannotated ` set (match_recipes dateParse clock (xs @ x # ys) recipes)"
proof
  show "unannotated r \<in> unannotated ` set (match_recipes dateParse clock (xs @ x # ys) recipes)
          \<or> match_recipes dateParse clock (xs @ x # ys) recipes
               = match_recipes dateParse clock (xs @ ys) recipes"
  proof (cases "classify_item dateParse clock x")
    case None
    then have "at_risk dateParse clock (xs @ x # ys) = at_risk dateParse clock (xs @ ys)"
      by (rule at_risk_skip)
    then show ?thesis by (simp add: match_recipes_def at_risk_names_def)
  next
    case (Some e)
    then have "normalize (item_name x) \<in> set (at_risk_names dateParse clock (xs @ x # ys))"
      unfolding set_at_risk_names by (cases e) force
    with assms(3) have "\<exists>g\<in>set (ingredients r).
        normalize g \<in> set (at_risk_names dateParse clock (xs @ x # ys))"
      by auto
    with assms(1) show ?thesis
      unfolding match_recipes_unannotated by blast
  qed
next
  show "unannotated ` set (match_recipes dateParse clock (xs @ ys) recipes)
             \<subseteq> unannotated ` set (match_recipes dateParse clock (xs @ x # ys) recipes)"
    unfolding match_recipes_unannotated
    using at_risk_names_grow [of dateParse clock xs ys x] by blast
qed

theorem match_monotone_witness:
  "pudding \<in> set [stir_fry, pudding]
   \<and> unannotated pudding \<notin> unannotated `
        set (match_recipes sampleDateParse 1704844800000 ([rice_item] @ []) [stir_fry, pudding])
   \<and> normalize (item_name milk_item) \<in> normalize ` set (ingredients pudding)
   \<and> unannotated pudding \<in> unannotated `
        set (match_recipes sampleDateParse 1704844800000 ([rice_item] @ milk_item # [])
               [stir_fry, pudding])"
proof -
  have h1: "pudding \<in> set [stir_fry, pudding]"
    by simp
  have old: "match_recipes sampleDateParse 1704844800000 ([rice_item] @ []) [stir_fry, pudding]
               = []"
    by code_simp
  have h3: "normalize (item_name milk_item) \<in> normalize ` set (ingredients pudding)"
    by code_simp
  have new: "match_recipes sampleDateParse 1704844800000 ([rice_item] @ milk_item # [])
               [stir_fry, pudding] \<noteq> []"
    by code_simp
  from match_monotone
         [of pudding "[stir_fry, pudding]" sampleDateParse 1704844800000 "[rice_item]" "[]"
            milk_item]
    h1 old h3 new
  show ?thesis by auto
qed

lemma set_generate:
  "set (generate message_of dateParse clock items) =
     (\<lambda>(it, status, days).
        \<lparr>alert_itemId = item_id it,
         alert_message = message_of (item_name it) status days,
         alert_urgency = urgency_of status days\<rparr>) ` set (at_risk dateParse clock items)"
  by (simp add: generate_def)

lemma generate_alert_of_item:
  assumes "it \<in> set items"
    and "getDaysUntilExpiry dateParse clock (item_expiryDate it) = Some (Num days)"
    and "getExpiryStatus dateParse clock (item_expiryDate it) = status"
    and "status = expired \<or> status = expiring"
  shows "\<exists>a\<in>set (generate message_of dateParse clock items).
           alert_itemId a = item_id it \<and> alert_urgency a = urgency_of status days"
proof -
  have "classify_item dateParse clock it = Some (it, status, days)"
    using assms(2-4) by (simp add: classify_item_Some)
  with assms(1) have "(it, status, days) \<in> set (at_risk dateParse clock items)"
    unfolding set_at_risk by blast
  then show ?thesis
    unfolding set_generate by force
qed

lemma generate_item_of_alert:
  assumes "a \<in> set (generate message_of dateParse clock items)"
  shows "\<exists>it\<in>set items. \<exists>days.
           getDaysUntilExpiry dateParse clock (item_expiryDate it) = Some (Num days)
           \<and> (getExpiryStatus dateParse clock (item_expiryDate it) = expired
              \<or> getExpiryStatus dateParse clock (item_expiryDate it) = expiring)
           \<and> alert_itemId a = item_id it
           \<and> alert_urgency a =
               urgency_of (getExpiryStatus dateParse clock (item_expiryDate it)) days"
proof -
  from assms obtain it status days
    where e: "(it, status, days) \<in> set (at_risk dateParse clock items)"
      and a: "a = \<lparr>alert_itemId = item_id it,
                    alert_message = message_of (item_name it) status days,
                    alert_urgency = urgency_of status days\<rparr>"
    unfolding set_generate by auto
  from e obtain it' where "it' \<in> set items"
    and "classify_item dateParse clock it' = Some (it, status, days)"
    unfolding set_at_risk by blast
  then have "it \<in> set items"
    and "getDaysUntilExpiry dateParse clock (item_expiryDate it) = Some (Num days)"
    and "status = getExpiryStatus dateParse clock (item_expiryDate it)"
    and "status = expired \<or> status = expiring"
    by (auto simp add: classify_item_Some)
  with a show ?thesis by auto
qed

lemma zero_days_expired:
  "getDaysUntilExpiry dateParse clock e = Some (Num 0) \<Longrightarrow>
     getExpiryStatus dateParse clock e = expired"
  by (simp add: getExpiryStatus_def)

text \<open>
  C4. Every alert of the generator belongs to an item that is \<open>expired\<close>, with urgency
  \<open>high\<close>, or \<open>expiring\<close>, with urgency \<open>high\<close> when its day count is at most 1 and
  \<open>medium\<close> otherwise; every such item has an alert with that urgency; and an item whose
  day count is 0 is \<open>expired\<close> and has an alert of urgency \<open>high\<close>.
\<close>

theorem alert_urgency_by_status:
  "(\<forall>a\<in>set (generate message_of dateParse clock items).
      \<exists>it\<in>set items. \<exists>days.
        getDaysUntilExpiry dateParse clock (item_expiryDate it) = Some (Num days)
        \<and> alert_itemId a = item_id it
        \<and> (getExpiryStatus dateParse clock (item_expiryDate it) = expired
              \<and> alert_urgency a = high
           \<or> getExpiryStatus dateParse clock (item_expiryDate it) = expiring
              \<and> days \<le> 1 \<and> alert_urgency a = high
           \<or> getExpiryStatus dateParse clock (item_expiryDate it) = expiring
              \<and> 1 < days \<and> alert_urgency a = medium))
   \<and> (\<forall>it\<in>set items. \<forall>days.
        getDaysUntilExpiry dateParse clock (item_expiryDate it) = Some (Num days) \<longrightarrow>
          (getExpiryStatus dateParse clock (item_expiryDate it) = expired \<longrightarrow>
             (\<exists>a\<in>set (generate message_of dateParse clock items).
                alert_itemId a = item_id it \<and> alert_urgency a = high))
          \<and> (getExpiryStatus dateParse clock (item_expiryDate it) = expiring \<and> days \<le> 1 \<longrightarrow>
             (\<exists>a\<in>set (generate message_of dateParse clock items).
                alert_itemId a = item_id it \<and> alert_urgency a = high))
          \<and> (getExpiryStatus dateParse clock (item_expiryDate it) = expiring \<and> 1 < days \<longrightarrow>
             (\<exists>a\<in>set (generate message_of dateParse clock items).
                alert_itemId a = item_id it \<and> alert_urgency a = medium)))
   \<and> (\<forall>it\<in>set items.
        getDaysUntilExpiry dateParse clock (item_expiryDate it) = Some (Num 0) \<longrightarrow>
          getExpiryStatus dateParse clock (item_expiryDate it) = expired
          \<and> (\<exists>a\<in>set (generate message_of dateParse clock items).
                alert_itemId a = item_id it \<and> alert_urgency a = high))"
proof (intro conjI ballI allI impI)
  fix a
  assume "a \<in> set (generate message_of dateParse clock items)"
  from generate_item_of_alert [OF this]
  show "\<exists>it\<in>set items. \<exists>days.
        getDaysUntilExpiry dateParse clock (item_expiryDate it) = Some (Num days)
        \<and> alert_itemId a = item_id it
        \<and> (getExpiryStatus dateParse clock (item_expiryDate it) = expired
              \<and> alert_urgency a = high
           \<or> getExpiryStatus dateParse clock (item_expiryDate it) = expiring
              \<and> days \<le> 1 \<and> alert_urgency a = high
           \<or> getExpiryStatus dateParse clock (item_expiryDate it) = expiring
              \<and> 1 < days \<and> alert_urgency a = medium)"
    by (fastforce simp add: urgency_of_def)
next
  fix it days
  assume it: "it \<in> set items"
    and d: "getDaysUntilExpiry dateParse clock (item_expiryDate it) = Some (Num days)"
  {
    assume "getExpiryStatus dateParse clock (item_expiryDate it) = expired"
    with generate_alert_of_item [OF it d refl, of message_of]
    show "\<exists>a\<in>set (generate message_of dateParse clock items).
            alert_itemId a = item_id it \<and> alert_urgency a = high"
      by (simp add: urgency_of_def)
  next
    assume "getExpiryStatus dateParse clock (item_expiryDate it) = expiring \<and> days \<le> 1"
    with generate_alert_of_item [OF it d refl, of message_of]
    show "\<exists>a\<in>set (generate message_of dateParse clock items).
            alert_itemId a = item_id it \<and> alert_urgency a = high"
      by (simp add: urgency_of_def)
  next
    assume "getExpiryStatus dateParse clock (item_expiryDate it) = expiring \<and> 1 < days"
    with generate_alert_of_item [OF it d refl, of message_of]
    show "\<exists>a\<in>set (generate message_of dateParse clock items).
            alert_itemId a = item_id it \<and> alert_urgency a = medium"
      by (simp add: urgency_of_def)
  }
next
  fix it
  assume it: "it \<in> set items"
    and d: "getDaysUntilExpiry dateParse clock (item_expiryDate it) = Some (Num 0)"
  from d show e: "getExpiryStatus dateParse clock (item_expiryDate it) = expired"
    by (rule zero_days_expired)
  from generate_alert_of_item [OF it d refl, of message_of] e
  show "\<exists>a\<in>set (generate message_of dateParse clock items).
          alert_itemId a = item_id it \<and> alert_urgency a = high"
    by (simp add: urgency_of_def)
qed


theorem alert_urgency_by_status_witness:
  "getDaysUntilExpiry sampleDateParse 1705017600000 (item_expiryDate milk_item) = Some (Num 0)
   \<and> getExpiryStatus sampleDateParse 1705017600000 (item_expiryDate milk_item) = expired
   \<and> (\<exists>a\<in>set (generate (\<lambda>n s d. n) sampleDateParse 1705017600000 [rice_item, milk_item]).
         alert_itemId a = item_id milk_item \<and> alert_urgency a = high)"
proof -
  have d: "getDaysUntilExpiry sampleDateParse 1705017600000 (item_expiryDate milk_item)
             = Some (Num 0)"
    using days_parsed_div [of "''2024-01-12''" sampleDateParse 1705017600000 1705017600000]
    by (simp add: milk_item_def sampleDateParse_def)
  have m: "milk_item \<in> set [rice_item, milk_item]"
    by simp
  from alert_urgency_by_status
         [of "\<lambda>n s d. n" sampleDateParse 1705017600000 "[rice_item, milk_item]"] d m
  show ?thesis by blast
qed

end
